theory Spec2Isabelle
  imports Main "HOL-Library.Char_ord"
begin

section \<open>pyliterate: \<^verbatim>\<open>run_markdown.py\<close>\<close>

text \<open>
  A shallow embedding of \<^verbatim>\<open>src/pyliterate/run_markdown.py\<close>. The document text is a
  \<^typ>\<open>string\<close>; for ASCII documents a character of the model is a character of the
  Python \<^verbatim>\<open>str\<close>, and \<^verbatim>\<open>str.lower\<close> is the ASCII lower-casing.

  The Python interpreter that runs the embedded snippets, the two child processes
  (\<^verbatim>\<open>python2.7\<close>, \<^verbatim>\<open>python3\<close>) and the file system are not part of the repository: they
  are parameters of the model. A snippet either returns or raises an instance of
  \<^verbatim>\<open>Exception\<close>; its effect on the process is its effect on the namespace and the text it
  writes to the capture buffer. What the module writes to \<^verbatim>\<open>sys.stderr\<close>, the logging
  handler and the alarm signal are left out.
\<close>

subsection \<open>String operations of the Python library\<close>

definition lower_char :: "char \<Rightarrow> char" where
  "lower_char c =
     (if CHR ''A'' \<le> c \<and> c \<le> CHR ''Z'' then char_of (of_char c + (32 :: nat)) else c)"

text \<open>\<^verbatim>\<open>s.lower()\<close>\<close>

definition lower :: "string \<Rightarrow> string" where
  "lower s = map lower_char s"

text \<open>\<^verbatim>\<open>s[a:b]\<close> for \<open>0 \<le> a\<close>, \<open>0 \<le> b\<close>: empty when \<open>b \<le> a\<close>, cut at the end of \<open>s\<close>.\<close>

definition slice :: "nat \<Rightarrow> nat \<Rightarrow> string \<Rightarrow> string" where
  "slice a b s = take (b - a) (drop a s)"

text \<open>\<^verbatim>\<open>s[a:b]\<close> where \<open>a\<close> may be \<^verbatim>\<open>None\<close> (the start of the string).\<close>

definition slice_from :: "nat option \<Rightarrow> nat \<Rightarrow> string \<Rightarrow> string" where
  "slice_from a b s = (case a of None \<Rightarrow> take b s | Some i \<Rightarrow> slice i b s)"

text \<open>\<^verbatim>\<open>s[:b]\<close> where \<open>b\<close> may be \<^verbatim>\<open>None\<close> (the end of the string).\<close>

definition slice_to :: "nat option \<Rightarrow> string \<Rightarrow> string" where
  "slice_to b s = (case b of None \<Rightarrow> s | Some i \<Rightarrow> take i s)"

text \<open>\<^verbatim>\<open>s.count('\n')\<close>\<close>

definition count_nl :: "string \<Rightarrow> nat" where
  "count_nl s = length (filter (\<lambda>c. c = CHR ''\<newline>'') s)"

text \<open>\<^verbatim>\<open>s.find('\n', i)\<close>: the least index \<open>\<ge> i\<close> of a line break, or \<open>-1\<close>.\<close>

fun find_from :: "nat \<Rightarrow> string \<Rightarrow> int" where
  "find_from i [] = - 1"
| "find_from i (c # cs) = (if c = CHR ''\<newline>'' then int i else find_from (Suc i) cs)"

definition find_nl :: "string \<Rightarrow> nat \<Rightarrow> int" where
  "find_nl s i = find_from i (drop i s)"

text \<open>\<^verbatim>\<open>s.strip('\n')\<close>\<close>

definition strip_nl :: "string \<Rightarrow> string" where
  "strip_nl s =
     rev (dropWhile (\<lambda>c. c = CHR ''\<newline>'') (rev (dropWhile (\<lambda>c. c = CHR ''\<newline>'') s)))"

text \<open>\<^verbatim>\<open>str.isspace\<close> on one ASCII character, and \<^verbatim>\<open>s.strip()\<close>.\<close>

definition is_space :: "char \<Rightarrow> bool" where
  "is_space c \<longleftrightarrow> c = CHR '' '' \<or> (CHR 0x09 \<le> c \<and> c \<le> CHR 0x0D) \<or> (CHR 0x1C \<le> c \<and> c \<le> CHR 0x1F)"

definition strip :: "string \<Rightarrow> string" where
  "strip s = rev (dropWhile is_space (rev (dropWhile is_space s)))"

text \<open>\<^verbatim>\<open>s.startswith(p)\<close>\<close>

definition startswith :: "string \<Rightarrow> string \<Rightarrow> bool" where
  "startswith s p \<longleftrightarrow> take (length p) s = p"

text \<open>\<^verbatim>\<open>s.split('\n')[-1]\<close>: what follows the last line break.\<close>

definition last_line :: "string \<Rightarrow> string" where
  "last_line s = rev (takeWhile (\<lambda>c. c \<noteq> CHR ''\<newline>'') (rev s))"

text \<open>\<^verbatim>\<open>os.path.basename\<close> and \<^verbatim>\<open>os.path.join\<close> of two components (posixpath).\<close>

definition basename :: "string \<Rightarrow> string" where
  "basename p = rev (takeWhile (\<lambda>c. c \<noteq> CHR ''/'') (rev p))"

definition path_join :: "string \<Rightarrow> string \<Rightarrow> string" where
  "path_join a b =
     (if startswith b ''/'' then b
      else if a = [] \<or> last a = CHR ''/'' then a @ b
      else a @ ''/'' @ b)"

text \<open>
  \<^verbatim>\<open>re.finditer('```', text)\<close>: the start offsets of the non-overlapping occurrences of
  the delimiter, from left to right; the scan resumes after a match.
\<close>

fun fence_starts :: "nat \<Rightarrow> string \<Rightarrow> nat list" where
  "fence_starts i (a # b # c # cs) =
     (if a = CHR ''`'' \<and> b = CHR ''`'' \<and> c = CHR ''`''
      then i # fence_starts (i + 3) cs
      else fence_starts (Suc i) (b # c # cs))"
| "fence_starts i cs = []"

definition finditer :: "string \<Rightarrow> nat list" where
  "finditer s = fence_starts 0 s"

subsection \<open>\<^verbatim>\<open>filename_re\<close> and its substitution\<close>

text \<open>
  \<^verbatim>\<open>filename_re = re.compile('[\\.]{0,2}/[-a-zA-Z0-9_/]+(\\.py|\\.md)')\<close>.
  Neither a dot nor a slash can be given back by backtracking: after the dots the next
  character must be the slash, and after the run of class characters the next character
  must be the dot of the extension, which is not in the class. So a match at the head of
  a string takes all the dots there (at most two), the slash, the whole run of class
  characters (at least one) and the extension. \<open>match_filename s\<close> is the length of the
  match at the head of \<open>s\<close>.
\<close>

definition path_char :: "char \<Rightarrow> bool" where
  "path_char c \<longleftrightarrow>
     c = CHR ''-'' \<or> (CHR ''a'' \<le> c \<and> c \<le> CHR ''z'') \<or> (CHR ''A'' \<le> c \<and> c \<le> CHR ''Z'')
     \<or> (CHR ''0'' \<le> c \<and> c \<le> CHR ''9'') \<or> c = CHR ''_'' \<or> c = CHR ''/''"

definition match_filename :: "string \<Rightarrow> nat option" where
  "match_filename s =
     (let dots = takeWhile (\<lambda>c. c = CHR ''.'') s;
          s1 = drop (length dots) s
      in if 2 < length dots then None
         else (case s1 of
                 [] \<Rightarrow> None
               | c # s2 \<Rightarrow>
                   if c \<noteq> CHR ''/'' then None
                   else (let body = takeWhile path_char s2;
                             s3 = drop (length body) s2
                         in if body = [] then None
                            else if startswith s3 ''.py'' \<or> startswith s3 ''.md''
                            then Some (length dots + 1 + length body + 3)
                            else None)))"

text \<open>
  \<^verbatim>\<open>filename_re.sub('my_code.py', s)\<close>: the leftmost match is replaced and the search goes
  on behind it. \<open>sub_skip k s\<close> first passes over \<open>k\<close> characters that belong to the match
  just replaced.
\<close>

fun sub_skip :: "nat \<Rightarrow> string \<Rightarrow> string" where
  "sub_skip k [] = []"
| "sub_skip (Suc k) (c # cs) = sub_skip k cs"
| "sub_skip 0 (c # cs) =
     (case match_filename (c # cs) of
        Some n \<Rightarrow> ''my_code.py'' @ sub_skip (n - 1) cs
      | None \<Rightarrow> c # sub_skip 0 cs)"

definition filename_sub :: "string \<Rightarrow> string" where
  "filename_sub s = sub_skip 0 s"

text \<open>
  The words that \<^verbatim>\<open>filename_re\<close> matches, read off the pattern of the source: at most
  two dots, a slash, one or more characters of the class, and \<^verbatim>\<open>.py\<close> or \<^verbatim>\<open>.md\<close>.
\<close>


definition filename_re_word :: "string \<Rightarrow> bool" where
  "filename_re_word w \<longleftrightarrow>
     (\<exists>dots body ext.
        w = dots @ ''/'' @ body @ ext
        \<and> (dots = [] \<or> dots = ''.'' \<or> dots = ''..'')
        \<and> body \<noteq> [] \<and> list_all path_char body
        \<and> (ext = ''.py'' \<or> ext = ''.md''))"

text \<open>
  The spec speaks of an ``absolute or relative file-path-looking substring'' and says no
  more. Read by its words: a text of file-name characters and slashes with at least one
  slash, whose last component is a name, a dot and an extension. It may start with a
  slash or not, and a directory name may have a dot.
\<close>

definition file_name_char :: "char \<Rightarrow> bool" where
  "file_name_char c \<longleftrightarrow> (path_char c \<and> c \<noteq> CHR ''/'') \<or> c = CHR ''.''"

definition file_path_looking :: "string \<Rightarrow> bool" where
  "file_path_looking w \<longleftrightarrow>
     CHR ''/'' \<in> set w
     \<and> list_all (\<lambda>c. file_name_char c \<or> c = CHR ''/'') w
     \<and> (let name = basename w;
              extension = rev (takeWhile (\<lambda>c. c \<noteq> CHR ''.'') (rev name))
          in extension \<noteq> [] \<and> length extension + 1 < length name)"

subsection \<open>The namespace, the interpreter and the failures\<close>

text \<open>
  The values a name of the namespace can hold: the real \<^verbatim>\<open>print\<close>, the five closures and
  the buffer that \<^verbatim>\<open>exec_source\<close> installs, and any other object.
\<close>

datatype pyval =
    REAL_PRINT
  | my_print
  | my_pprint
  | my_debug
  | my_help
  | my_pdb
  | output_buffer
  | Obj string

type_synonym namespace = "string \<rightharpoonup> pyval"

text \<open>An exception raised by a snippet: \<^verbatim>\<open>e.__class__.__name__\<close> and \<^verbatim>\<open>str(e)\<close>.\<close>

record py_exception =
  class_name :: string
  message :: string

text \<open>
  What \<^verbatim>\<open>ast.parse\<close>, \<^verbatim>\<open>compile\<close> and \<^verbatim>\<open>exec(code, context, context)\<close> do with a source:
  the namespace they leave, the text written to the capture buffer, and the exception
  raised, if any.
\<close>

record run_result =
  new_context :: namespace
  captured :: string
  raised :: "py_exception option"

type_synonym runtime = "string \<Rightarrow> string \<Rightarrow> namespace \<Rightarrow> run_result"

datatype error =
    MarkdownExecError py_exception
  | WrappedException string py_exception
  | AssertionError string
  | OSError string
  | SubprocessError string

text \<open>
  The collaborators of one run: the interpreter, the standard output of \<^verbatim>\<open>python2.7\<close> on
  an input and the standard error of \<^verbatim>\<open>python3\<close> on an input (\<open>None\<close> when the call
  raises), and the flags \<^verbatim>\<open>--root_dir\<close> and \<^verbatim>\<open>--overwrite\<close>.
\<close>

record env =
  run :: runtime
  python2_7 :: "string \<Rightarrow> string option"
  python3_stderr :: "string \<Rightarrow> string option"
  root_dir :: string
  overwrite :: bool

subsection \<open>\<^verbatim>\<open>exec_source\<close>, \<^verbatim>\<open>exec_python2\<close>, \<^verbatim>\<open>exec_syntax_error\<close>, \<^verbatim>\<open>exec_exception\<close>\<close>

definition install_overrides :: "namespace \<Rightarrow> namespace" where
  "install_overrides c =
     c(''print'' \<mapsto> my_print, ''pprint'' \<mapsto> my_pprint, ''debug'' \<mapsto> my_debug,
       ''help'' \<mapsto> my_help, ''Pdb'' \<mapsto> my_pdb, ''STDOUT'' \<mapsto> output_buffer)"

definition restore_print :: "namespace \<Rightarrow> namespace" where
  "restore_print c = c(''print'' \<mapsto> REAL_PRINT)"

text \<open>
  The result is the namespace after the call and either the captured output or the
  exception that leaves the call. The \<^verbatim>\<open>except\<close> clause restores \<^verbatim>\<open>print\<close> and the
  \<^verbatim>\<open>finally\<close> clause restores it again.
\<close>

definition exec_source ::
  "runtime \<Rightarrow> string \<Rightarrow> string \<Rightarrow> namespace \<Rightarrow> bool \<Rightarrow> namespace \<times> (error + string)" where
  "exec_source rt pth source c raise_exceptions =
     (let r = rt pth source (install_overrides c)
      in case raised r of
           Some e \<Rightarrow>
             (let c1 = restore_print (new_context r);
                  output_so_far = captured r
              in (restore_print c1,
                  Inl (if raise_exceptions then WrappedException output_so_far e
                       else MarkdownExecError e)))
         | None \<Rightarrow> (restore_print (new_context r), Inr (captured r)))"

definition exec_python2 :: "env \<Rightarrow> string \<Rightarrow> error + string" where
  "exec_python2 ev source =
     (case python2_7 ev source of
        None \<Rightarrow> Inl (SubprocessError ''python2.7'')
      | Some out \<Rightarrow> Inr out)"

definition exec_syntax_error :: "env \<Rightarrow> string \<Rightarrow> error + string" where
  "exec_syntax_error ev source =
     (case python3_stderr ev source of
        None \<Rightarrow> Inl (SubprocessError ''python3'')
      | Some out \<Rightarrow> Inr (last_line (strip_nl out)))"

definition exception_line :: "py_exception \<Rightarrow> string" where
  "exception_line original = class_name original @ '': '' @ filename_sub (message original)"

definition exec_exception ::
  "runtime \<Rightarrow> string \<Rightarrow> string \<Rightarrow> namespace \<Rightarrow> namespace \<times> (error + string)" where
  "exec_exception rt pth source c =
     (case exec_source rt pth source c True of
        (c', Inl (WrappedException out original)) \<Rightarrow>
          (c', Inr (if out \<noteq> [] then out @ ''Traceback ...\<newline>'' @ exception_line original
                    else exception_line original))
      | (c', Inl e) \<Rightarrow> (c', Inl e)
      | (c', Inr out) \<Rightarrow> (c', Inl (AssertionError ''Exception not raised'')))"

subsection \<open>\<^verbatim>\<open>iterate_blocks\<close>\<close>

text \<open>
  The local variables of the generator, the namespace and the fragments yielded so far.
  A failure carries the state in which it was raised: the fragments of that state have
  already reached the consumer. The names are those of the source, except where the
  source's name is a keyword here: \<open>ctxt\<close> is \<^verbatim>\<open>context\<close>, \<open>fin\<close> is \<^verbatim>\<open>end\<close> and \<open>pth\<close> is
  \<^verbatim>\<open>path\<close>.
\<close>

record state =
  text_start :: nat
  source_start :: "nat option"
  block_suffix :: string
  pending_source :: string
  pending_output :: string
  ctxt :: namespace
  yielded :: "string list"

type_synonym outcome = "(error \<times> state) + state"

text \<open>The state of an outcome: the state the steps end in, or the one in which they fail.\<close>

definition after_loop :: "outcome \<Rightarrow> state" where
  "after_loop r = (case r of Inl (e, st) \<Rightarrow> st | Inr st \<Rightarrow> st)"

definition yield :: "string \<Rightarrow> state \<Rightarrow> state" where
  "yield fragment st = st\<lparr>yielded := yielded st @ [fragment]\<rparr>"

definition initial_state :: "namespace \<Rightarrow> state" where
  "initial_state c =
     \<lparr>text_start = 0, source_start = None, block_suffix = [], pending_source = [],
      pending_output = [], ctxt = c, yielded = []\<rparr>"

text \<open>
  \<^verbatim>\<open>pending_output += exec_source(path, pending_source, context); pending_source = ''\<close>.
  When the call raises, neither assignment happens.
\<close>

definition run_pending :: "env \<Rightarrow> string \<Rightarrow> state \<Rightarrow> outcome" where
  "run_pending ev pth st =
     (case exec_source (run ev) pth (pending_source st) (ctxt st) False of
        (c, Inl e) \<Rightarrow> Inl (e, st\<lparr>ctxt := c\<rparr>)
      | (c, Inr out) \<Rightarrow>
          Inr (st\<lparr>ctxt := c, pending_output := pending_output st @ out,
                  pending_source := []\<rparr>))"

text \<open>The opening fence at \<open>start\<close>, ending at \<open>fin\<close> (the branch \<^verbatim>\<open>blocks_seen % 2 == 0\<close>).\<close>

definition open_fence :: "string \<Rightarrow> nat \<Rightarrow> nat \<Rightarrow> state \<Rightarrow> state" where
  "open_fence text start fin st =
     (let suffix_end = find_nl text fin;
          st1 = (if suffix_end > 0
                 then (let suffix = lower (slice fin (nat suffix_end) text)
                       in st\<lparr>block_suffix := suffix,
                              source_start := Some (fin + length suffix)\<rparr>)
                 else st)
      in yield (slice (text_start st1) start text) st1)"

text \<open>
  The lines that put the body of a \<^verbatim>\<open>python\<close> or \<^verbatim>\<open>python-exception\<close> block behind the
  pending source: \<^verbatim>\<open>'\n' * delta_offset\<close> is empty for a negative \<open>delta_offset\<close>.
\<close>

definition accumulate :: "string \<Rightarrow> string \<Rightarrow> state \<Rightarrow> state" where
  "accumulate text source st =
     (let line_offset = int (count_nl (slice_to (source_start st) text));
          delta_offset = line_offset - int (count_nl (pending_source st));
          padded = pending_source st @ replicate (nat delta_offset) CHR ''\<newline>''
      in st\<lparr>pending_source := padded @ source\<rparr>)"

definition python_block :: "env \<Rightarrow> string \<Rightarrow> string \<Rightarrow> string \<Rightarrow> state \<Rightarrow> outcome" where
  "python_block ev pth text source st =
     (case (if block_suffix st = ''python-exception'' \<and> pending_source st \<noteq> []
            then run_pending ev pth st else Inr st) of
        Inl failure \<Rightarrow> Inl failure
      | Inr st1 \<Rightarrow>
          (let st2 = accumulate text source st1;
               st3 = yield ''```'' (yield source (yield (''```'' @ block_suffix st2) st2))
           in if block_suffix st3 = ''python-exception''
              then (case exec_exception (run ev) pth (pending_source st3) (ctxt st3) of
                      (c, Inl e) \<Rightarrow> Inl (e, st3\<lparr>ctxt := c\<rparr>)
                    | (c, Inr out) \<Rightarrow>
                        Inr (st3\<lparr>ctxt := c, pending_output := pending_output st3 @ out,
                                 pending_source := []\<rparr>))
              else Inr st3))"

definition python2_block :: "env \<Rightarrow> string \<Rightarrow> state \<Rightarrow> outcome" where
  "python2_block ev source st =
     (let st1 = yield ''```python2'' st;
          st2 = (if \<not> startswith source ''\<newline># Python 2''
                 then yield ''\<newline># Python 2'' st1 else st1);
          st3 = yield ''```'' (yield source st2)
      in case exec_python2 ev source of
           Inl e \<Rightarrow> Inl (e, st3)
         | Inr out \<Rightarrow> Inr (st3\<lparr>pending_output := pending_output st3 @ out\<rparr>))"

definition syntax_error_block :: "env \<Rightarrow> string \<Rightarrow> state \<Rightarrow> outcome" where
  "syntax_error_block ev source st =
     (let st1 = yield ''```'' (yield source (yield ''```python-syntax-error'' st))
      in case exec_syntax_error ev source of
           Inl e \<Rightarrow> Inl (e, st1)
         | Inr out \<Rightarrow> Inr (st1\<lparr>pending_output := pending_output st1 @ out\<rparr>))"

definition include_block :: "env \<Rightarrow> (string \<rightharpoonup> string) \<Rightarrow> state \<Rightarrow> outcome" where
  "include_block ev fs st =
     (let include_path = drop (length ''python-include:'') (block_suffix st);
          file_basename = basename include_path;
          full_path = path_join (root_dir ev) include_path
      in case fs full_path of
           None \<Rightarrow> Inl (OSError full_path, st)
         | Some data \<Rightarrow>
             Inr (yield ''\<newline>```'' (yield (strip data)
                   (yield (''# '' @ file_basename @ ''\<newline>'')
                     (yield (''```'' @ block_suffix st @ ''\<newline>'') st)))))"

definition output_block :: "env \<Rightarrow> string \<Rightarrow> string \<Rightarrow> state \<Rightarrow> outcome" where
  "output_block ev pth source st =
     (case (if pending_source st \<noteq> [] then run_pending ev pth st
            else if pending_output st = [] then Inr (st\<lparr>pending_output := source\<rparr>)
            else Inr st) of
        Inl failure \<Rightarrow> Inl failure
      | Inr st1 \<Rightarrow>
          Inr ((yield ''\<newline>```'' (yield (strip_nl (pending_output st1))
                 (yield (''```'' @ block_suffix st1 @ ''\<newline>'') st1)))
               \<lparr>pending_output := []\<rparr>))"

text \<open>The tags that the chain of \<^verbatim>\<open>if\<close> and \<^verbatim>\<open>elif\<close> tests for; every other tag reaches
  its \<^verbatim>\<open>else\<close> branch.\<close>

definition recognized :: "string \<Rightarrow> bool" where
  "recognized tag \<longleftrightarrow>
     tag = ''python'' \<or> tag = ''python-exception'' \<or> tag = ''python2''
     \<or> tag = ''python-syntax-error'' \<or> startswith tag ''python-include:''"

text \<open>The closing fence at \<open>start\<close>, ending at \<open>fin\<close> (the \<^verbatim>\<open>else\<close> branch of the loop body).\<close>

definition close_fence ::
  "env \<Rightarrow> (string \<rightharpoonup> string) \<Rightarrow> string \<Rightarrow> string \<Rightarrow> nat \<Rightarrow> nat \<Rightarrow> state \<Rightarrow> outcome" where
  "close_fence ev fs pth text start fin st0 =
     (let st = st0\<lparr>text_start := fin\<rparr>;
          source = slice_from (source_start st) start text
      in if block_suffix st = ''python'' \<or> block_suffix st = ''python-exception''
         then python_block ev pth text source st
         else if block_suffix st = ''python2'' then python2_block ev source st
         else if block_suffix st = ''python-syntax-error'' then syntax_error_block ev source st
         else if startswith (block_suffix st) ''python-include:'' then include_block ev fs st
         else output_block ev pth source st)"

text \<open>
  \<^verbatim>\<open>for blocks_seen, match in enumerate(re.finditer('```', text))\<close>, over the start
  offsets of the matches that are left.
\<close>

fun blocks_loop ::
  "env \<Rightarrow> (string \<rightharpoonup> string) \<Rightarrow> string \<Rightarrow> string \<Rightarrow> nat \<Rightarrow> nat list \<Rightarrow> state \<Rightarrow> outcome" where
  "blocks_loop ev fs pth text blocks_seen [] st = Inr st"
| "blocks_loop ev fs pth text blocks_seen (start # matches) st =
     (if blocks_seen mod 2 = 0
      then blocks_loop ev fs pth text (Suc blocks_seen) matches
             (open_fence text start (start + 3) st)
      else (case close_fence ev fs pth text start (start + 3) st of
              Inl failure \<Rightarrow> Inl failure
            | Inr st1 \<Rightarrow> blocks_loop ev fs pth text (Suc blocks_seen) matches st1))"

text \<open>What follows the loop: the rest of the text, then the source still pending.\<close>

definition finish :: "env \<Rightarrow> string \<Rightarrow> string \<Rightarrow> state \<Rightarrow> outcome" where
  "finish ev pth text st =
     (let st1 = yield (drop (text_start st) text) st
      in if pending_source st1 \<noteq> []
         then (case exec_source (run ev) pth (pending_source st1) (ctxt st1) False of
                 (c, Inl e) \<Rightarrow> Inl (e, st1\<lparr>ctxt := c\<rparr>)
               | (c, Inr out) \<Rightarrow> Inr (st1\<lparr>ctxt := c\<rparr>))
         else Inr st1)"

definition iterate_blocks ::
  "env \<Rightarrow> (string \<rightharpoonup> string) \<Rightarrow> string \<Rightarrow> string \<Rightarrow> namespace \<Rightarrow> outcome" where
  "iterate_blocks ev fs pth text c =
     (case blocks_loop ev fs pth text 0 (finditer text) (initial_state c) of
        Inl failure \<Rightarrow> Inl failure
      | Inr st \<Rightarrow> finish ev pth text st)"

subsection \<open>Predicates on states and documents\<close>

text \<open>
  The pending source has no more line breaks than the document has before the start of
  the body; and a line break follows every opening fence of a list of fences, where
  \<open>blocks_seen\<close> is the index of the first.
\<close>

definition aligned :: "string \<Rightarrow> state \<Rightarrow> bool" where
  "aligned text st \<longleftrightarrow>
     count_nl (pending_source st) \<le> count_nl (slice_to (source_start st) text)"

fun fresh_tags :: "string \<Rightarrow> nat \<Rightarrow> nat list \<Rightarrow> bool" where
  "fresh_tags text blocks_seen [] = True"
| "fresh_tags text blocks_seen (start # matches) =
     ((blocks_seen mod 2 = 0 \<longrightarrow> 0 < find_nl text (start + 3))
      \<and> fresh_tags text (Suc blocks_seen) matches)"




subsection \<open>\<^verbatim>\<open>print_iter\<close> and \<^verbatim>\<open>main\<close>\<close>

text \<open>
  The process: the dictionary of the module \<^verbatim>\<open>__main__\<close>, which is the namespace of
  every snippet, the files, and what has been written to the standard output.
\<close>

record world =
  globals :: namespace
  files :: "string \<rightharpoonup> string"
  stdout :: string

text \<open>
  \<^verbatim>\<open>print_iter\<close> consumes the generator. Without \<^verbatim>\<open>--overwrite\<close> each fragment is
  printed as it is yielded, also those before a failure; with it the fragments go to a
  buffer that is written to the file in the \<^verbatim>\<open>else\<close> clause of the \<^verbatim>\<open>try\<close>.
\<close>

definition print_iter :: "env \<Rightarrow> string \<Rightarrow> outcome \<Rightarrow> world \<Rightarrow> error option \<times> world" where
  "print_iter ev pth it w =
     (case it of
        Inl (e, st) \<Rightarrow>
          (Some e,
           if overwrite ev then w\<lparr>globals := ctxt st\<rparr>
           else w\<lparr>globals := ctxt st, stdout := stdout w @ concat (yielded st)\<rparr>)
      | Inr st \<Rightarrow>
          (None,
           if overwrite ev
           then w\<lparr>globals := ctxt st, files := (files w)(pth \<mapsto> concat (yielded st))\<rparr>
           else w\<lparr>globals := ctxt st, stdout := stdout w @ concat (yielded st)\<rparr>))"

text \<open>
  The loop of \<^verbatim>\<open>main\<close> over \<^verbatim>\<open>FLAGS.path\<close>. \<open>Inr n\<close> is the value \<^verbatim>\<open>main\<close> returns;
  \<open>Inl e\<close> is an exception that \<^verbatim>\<open>main\<close> does not catch.
\<close>

fun main_loop :: "env \<Rightarrow> string list \<Rightarrow> world \<Rightarrow> (error + int) \<times> world" where
  "main_loop ev [] w = (Inr 0, w)"
| "main_loop ev (pth # rest) w =
     (case files w pth of
        None \<Rightarrow> (Inl (OSError pth), w)
      | Some text \<Rightarrow>
          (case print_iter ev pth (iterate_blocks ev (files w) pth text (globals w)) w of
             (Some (MarkdownExecError e), w1) \<Rightarrow> (Inr 1, w1)
           | (Some e, w1) \<Rightarrow> (Inl e, w1)
           | (None, w1) \<Rightarrow> main_loop ev rest w1))"

text \<open>
  \<^verbatim>\<open>sys.exit(main())\<close>: the status of the process. An exception that nothing catches
  ends the interpreter with status 1.
\<close>

definition exit_status :: "error + int \<Rightarrow> int" where
  "exit_status r = (case r of Inl e \<Rightarrow> 1 | Inr n \<Rightarrow> n)"

subsection \<open>A small interpreter for the examples\<close>

text \<open>
  The theorems below hold for every interpreter. The examples run this one: it knows six
  statements, one per line, and does on them what Python does. A source with another
  line does not parse; a name that is not bound raises \<^verbatim>\<open>NameError\<close>; \<^verbatim>\<open>print\<close> writes
  to the capture buffer when the name is bound to the override.
\<close>

fun split_lines :: "string \<Rightarrow> string \<Rightarrow> string list" where
  "split_lines acc [] = [rev acc]"
| "split_lines acc (c # cs) =
     (if c = CHR ''\<newline>'' then rev acc # split_lines [] cs else split_lines (c # acc) cs)"

definition toy_known :: "string \<Rightarrow> bool" where
  "toy_known l \<longleftrightarrow>
     l = [] \<or> l = ''x = 2'' \<or> l = ''print(x)'' \<or> l = ''print(2 + 2)''
     \<or> l = ''raise ValueError('boom')'' \<or> l = ''raise ValueError('see ./ch1/example.py')''"

definition toy_print :: "string \<Rightarrow> run_result \<Rightarrow> run_result" where
  "toy_print s r =
     (if new_context r ''print'' = Some my_print then r\<lparr>captured := captured r @ s @ ''\<newline>''\<rparr>
      else r)"

definition toy_statement :: "string \<Rightarrow> run_result \<Rightarrow> run_result" where
  "toy_statement l r =
     (if l = ''x = 2'' then r\<lparr>new_context := (new_context r)(''x'' \<mapsto> Obj ''2'')\<rparr>
      else if l = ''print(x)''
      then (case new_context r ''x'' of
              Some (Obj v) \<Rightarrow> toy_print v r
            | _ \<Rightarrow> r\<lparr>raised := Some \<lparr>class_name = ''NameError'',
                                       message = ''name 'x' is not defined''\<rparr>\<rparr>)
      else if l = ''print(2 + 2)'' then toy_print ''4'' r
      else if l = ''raise ValueError('boom')''
      then r\<lparr>raised := Some \<lparr>class_name = ''ValueError'', message = ''boom''\<rparr>\<rparr>
      else if l = ''raise ValueError('see ./ch1/example.py')''
      then r\<lparr>raised := Some \<lparr>class_name = ''ValueError'',
                              message = ''see ./ch1/example.py''\<rparr>\<rparr>
      else r)"

fun toy_statements :: "string list \<Rightarrow> run_result \<Rightarrow> run_result" where
  "toy_statements [] r = r"
| "toy_statements (l # ls) r =
     (let r1 = toy_statement l r
      in if raised r1 = None then toy_statements ls r1 else r1)"

definition toy_run :: runtime where
  "toy_run pth source c =
     (let ls = split_lines [] source;
          r = \<lparr>new_context = c, captured = [], raised = None\<rparr>
      in if list_all toy_known ls then toy_statements ls r
         else r\<lparr>raised := Some \<lparr>class_name = ''SyntaxError'',
                                 message = ''invalid syntax''\<rparr>\<rparr>)"

definition toy_env :: env where
  "toy_env =
     \<lparr>run = toy_run,
      python2_7 = (\<lambda>s. if s = ''\<newline># Python 2\<newline>print 7\<newline>'' then Some ''7\<newline>'' else None),
      python3_stderr =
        (\<lambda>s. if s = ''\<newline>x = = 2\<newline>''
             then Some ''  File <stdin>, line 2\<newline>SyntaxError: invalid syntax\<newline>''
             else Some []),
      root_dir = ''.'',
      overwrite = False\<rparr>"

subsection \<open>Example documents\<close>

text \<open>A document that ends with a \<^verbatim>\<open>python\<close> block, and the state the loop leaves on it.\<close>

definition trailing_doc :: string where
  "trailing_doc = ''```python\<newline>print(x)\<newline>```\<newline>''"

definition trailing_state :: state where
  "trailing_state =
     \<lparr>text_start = 22, source_start = Some 9, block_suffix = ''python'',
      pending_source = ''\<newline>print(x)\<newline>'', pending_output = [], ctxt = Map.empty,
      yielded = [[], ''```python'', ''\<newline>print(x)\<newline>'', ''```'']\<rparr>"

text \<open>
  A document with one block of each kind that produces a result, and the state before
  the closing fence of its \<^verbatim>\<open>python2\<close> block.
\<close>

definition accum_doc :: string where
  "accum_doc = ''```python-exception\<newline>raise ValueError('boom')\<newline>```\<newline>```python2\<newline># Python 2\<newline>print 7\<newline>```\<newline>```python-syntax-error\<newline>x = = 2\<newline>```\<newline>```python\<newline>print(2 + 2)\<newline>```\<newline>```\<newline>```\<newline>''"


text \<open>A \<^verbatim>\<open>python-exception\<close> block whose source raises nothing.\<close>

definition calm_doc :: string where
  "calm_doc = ''```python-exception\<newline>print(2 + 2)\<newline>```\<newline>```\<newline>```\<newline>''"

text \<open>A \<^verbatim>\<open>python-exception\<close> block that raises \<^verbatim>\<open>ValueError('boom')\<close>, and an output block.\<close>

definition boom_doc :: string where
  "boom_doc = ''```python-exception\<newline>raise ValueError('boom')\<newline>```\<newline>```\<newline>```\<newline>''"

text \<open>A run with \<^verbatim>\<open>--overwrite\<close> over two files, the first of which fails.\<close>

definition overwrite_env :: env where
  "overwrite_env = toy_env\<lparr>overwrite := True\<rparr>"

definition batch_world :: world where
  "batch_world =
     \<lparr>globals = Map.empty,
      files = [''a.md'' \<mapsto> trailing_doc, ''b.md'' \<mapsto> calm_doc],
      stdout = []\<rparr>"

text \<open>Two files: the first binds \<^verbatim>\<open>x\<close>, the second prints it.\<close>

definition define_doc :: string where
  "define_doc = ''```python\<newline>x = 2\<newline>```\<newline>''"

definition use_doc :: string where
  "use_doc = ''```python\<newline>print(x)\<newline>```\<newline>```\<newline>```\<newline>''"

definition pair_world :: world where
  "pair_world =
     \<lparr>globals = Map.empty,
      files = [''a.md'' \<mapsto> define_doc, ''b.md'' \<mapsto> use_doc],
      stdout = []\<rparr>"

text \<open>
  A document whose last two fences stand on its last line, which no line break ends;
  the states before its second opening fence and before its second closing fence.
\<close>

definition stale_doc :: string where
  "stale_doc = ''```python\<newline>x = 2\<newline>```a```b```''"

definition stale_state :: state where
  "stale_state =
     after_loop (blocks_loop toy_env Map.empty ''a.md'' stale_doc 0 (take 2 (finditer stale_doc))
       (initial_state Map.empty))"

definition stale_open :: state where
  "stale_open =
     after_loop (blocks_loop toy_env Map.empty ''a.md'' stale_doc 0 (take 3 (finditer stale_doc))
       (initial_state Map.empty))"





text \<open>
  A document whose first output block runs \<^verbatim>\<open>x = 2\<close> and whose second prints \<^verbatim>\<open>x\<close>, with
  the state before the closing fence of the first output block; and a document whose
  output block follows a \<^verbatim>\<open>python-syntax-error\<close> block with an empty result.
\<close>

definition two_step_doc :: string where
  "two_step_doc = ''```python\<newline>x = 2\<newline>```\<newline>```\<newline>```\<newline>```python\<newline>print(x)\<newline>```\<newline>```\<newline>old\<newline>```\<newline>''"

definition two_step_state :: state where
  "two_step_state =
     after_loop (blocks_loop toy_env Map.empty ''a.md'' two_step_doc 0
       (take 3 (finditer two_step_doc)) (initial_state Map.empty))"


section \<open>Properties\<close>

lemmas model_defs = finditer_def initial_state_def open_fence_def close_fence_def find_nl_def
  slice_def lower_def yield_def lower_char_def slice_from_def python_block_def accumulate_def
  slice_to_def count_nl_def Let_def output_block_def run_pending_def exec_source_def
  install_overrides_def restore_print_def strip_nl_def startswith_def python2_block_def
  syntax_error_block_def include_block_def exec_python2_def exec_syntax_error_def
  exec_exception_def exception_line_def filename_sub_def match_filename_def path_char_def
  last_line_def finish_def iterate_blocks_def after_loop_def recognized_def

lemmas toy_defs = toy_env_def toy_run_def toy_known_def toy_statement_def toy_print_def

subsection \<open>The loop over the fences\<close>

text \<open>
  The loop over a list of fences is the loop over a first part followed by the loop over
  the rest, from the state the first part left. So every fence is handled in the state
  that the fences before it left.
\<close>

lemma blocks_loop_append:
  "blocks_loop ev fs pth text blocks_seen (xs @ ys) st =
     (case blocks_loop ev fs pth text blocks_seen xs st of
        Inl failure \<Rightarrow> Inl failure
      | Inr st1 \<Rightarrow> blocks_loop ev fs pth text (blocks_seen + length xs) ys st1)"
  by (induction xs arbitrary: blocks_seen st) (simp_all split: sum.split)

lemma blocks_loop_next:
  assumes "n < length ms"
    and "blocks_loop ev fs pth text 0 (take n ms) (initial_state c) = Inr st"
  shows "blocks_loop ev fs pth text 0 (take (Suc n) ms) (initial_state c) =
     (if n mod 2 = 0 then Inr (open_fence text (ms ! n) (ms ! n + 3) st)
      else close_fence ev fs pth text (ms ! n) (ms ! n + 3) st)"
proof -
  have "take (Suc n) ms = take n ms @ [ms ! n]"
    using assms(1) by (rule take_Suc_conv_app_nth)
  moreover have "length (take n ms) = n"
    using assms(1) by simp
  ultimately show ?thesis
    using assms(2) by (simp add: blocks_loop_append split: sum.split)
qed

subsection \<open>The overrides of \<^verbatim>\<open>exec_source\<close>\<close>

text \<open>
  C7, as the code has it. On every exit path of \<^verbatim>\<open>exec_source\<close> (the source returns; it
  raises and the call raises \<^verbatim>\<open>WrappedException\<close>; it raises and the call raises
  \<^verbatim>\<open>MarkdownExecError\<close>) the namespace that the call leaves, which is the one a handler
  of the exception sees, is the namespace the source left with \<^verbatim>\<open>print\<close> bound to the
  real \<^verbatim>\<open>print\<close>. Only \<^verbatim>\<open>print\<close> is reverted: no other name is assigned after the
  source has run.
\<close>

theorem exec_source_restores_print_only:
  "fst (exec_source rt pth source c raise_exceptions) =
     (new_context (rt pth source (install_overrides c)))(''print'' \<mapsto> REAL_PRINT)
   \<and> snd (exec_source rt pth source c raise_exceptions) =
     (case raised (rt pth source (install_overrides c)) of
        None \<Rightarrow> Inr (captured (rt pth source (install_overrides c)))
      | Some e \<Rightarrow>
          Inl (if raise_exceptions
               then WrappedException (captured (rt pth source (install_overrides c))) e
               else MarkdownExecError e))"
  by (simp add: exec_source_def restore_print_def Let_def split: option.split)

text \<open>
  C7, as stated, fails: after a call that runs the empty source and returns, the names
  \<^verbatim>\<open>pprint\<close>, \<^verbatim>\<open>debug\<close>, \<^verbatim>\<open>help\<close> and \<^verbatim>\<open>Pdb\<close> are still bound to the overrides of that
  call; of the five only \<^verbatim>\<open>print\<close> is back.
\<close>

theorem exec_source_leaves_overrides_installed:
  "snd (exec_source toy_run ''a.md'' [] Map.empty False) = Inr []
   \<and> fst (exec_source toy_run ''a.md'' [] Map.empty False) ''print'' = Some REAL_PRINT
   \<and> fst (exec_source toy_run ''a.md'' [] Map.empty False) ''pprint'' = Some my_pprint
   \<and> fst (exec_source toy_run ''a.md'' [] Map.empty False) ''debug'' = Some my_debug
   \<and> fst (exec_source toy_run ''a.md'' [] Map.empty False) ''help'' = Some my_help
   \<and> fst (exec_source toy_run ''a.md'' [] Map.empty False) ''Pdb'' = Some my_pdb"
  by code_simp

subsection \<open>The end of the pass\<close>

text \<open>
  C9. When the loop over the fences ends with a pending source that is not empty, the
  pass yields the rest of the text and then runs the pending source once, on the
  namespace the loop left. The captured output occurs nowhere in the result: the
  fragments are those of the loop and the rest of the text. An exception of the source
  ends the pass with \<^verbatim>\<open>MarkdownExecError\<close>.
\<close>

theorem iterate_blocks_runs_trailing_source:
  assumes "blocks_loop ev fs pth text 0 (finditer text) (initial_state c) = Inr st"
    and "pending_source st \<noteq> []"
  shows "iterate_blocks ev fs pth text c =
     (let r = run ev pth (pending_source st) (install_overrides (ctxt st));
          st1 = (yield (drop (text_start st) text) st)\<lparr>ctxt := restore_print (new_context r)\<rparr>
      in case raised r of
           None \<Rightarrow> Inr st1
         | Some e \<Rightarrow> Inl (MarkdownExecError e, st1))"
  using assms
  by (simp add: iterate_blocks_def finish_def exec_source_def yield_def restore_print_def
      Let_def split: option.split)

text \<open>
  The document \<^term>\<open>trailing_doc\<close> has one \<^verbatim>\<open>python\<close> block and no output block. Its
  source is run at the end of the pass, where the unbound name is found.
\<close>

theorem iterate_blocks_runs_trailing_source_witness:
  "blocks_loop toy_env Map.empty ''a.md'' trailing_doc 0 (finditer trailing_doc)
     (initial_state Map.empty) = Inr trailing_state
   \<and> pending_source trailing_state \<noteq> []
   \<and> iterate_blocks toy_env Map.empty ''a.md'' trailing_doc Map.empty =
       Inl (MarkdownExecError
              \<lparr>class_name = ''NameError'', message = ''name 'x' is not defined''\<rparr>,
            trailing_state
              \<lparr>yielded := yielded trailing_state @ [''\<newline>''],
               ctxt := (install_overrides Map.empty)(''print'' \<mapsto> REAL_PRINT)\<rparr>)"
proof -
  have loop: "blocks_loop toy_env Map.empty ''a.md'' trailing_doc 0 (finditer trailing_doc)
      (initial_state Map.empty) = Inr trailing_state"
    by (simp add: trailing_doc_def trailing_state_def model_defs)
  have pending: "pending_source trailing_state \<noteq> []"
    by (simp add: trailing_state_def)
  show ?thesis
    using loop pending iterate_blocks_runs_trailing_source [OF loop pending]
    by (simp add: trailing_doc_def trailing_state_def model_defs toy_defs)
qed

subsection \<open>\<^verbatim>\<open>python-exception\<close> blocks\<close>

text \<open>
  C3, as the code has it. At the closing fence of a \<^verbatim>\<open>python-exception\<close> block a pending
  source that is not empty is run first, by \<^verbatim>\<open>exec_source\<close> without
  \<^verbatim>\<open>raise_exceptions\<close>: its output is appended to the pending output, and an exception
  in it ends the pass with \<^verbatim>\<open>MarkdownExecError\<close>. Then the body, behind as many line
  breaks as precede it in the document, is the whole pending source; the fence is yielded
  as it was and the source is run at once. When the source raises, the exception line
  (behind the captured output and the \<^verbatim>\<open>Traceback ...\<close> line when there is output) is
  appended to the pending output and the pending source is empty again. When the source
  raises nothing, the pass ends with the \<^verbatim>\<open>AssertionError\<close> of \<^verbatim>\<open>exec_exception\<close>.
\<close>

theorem python_exception_block:
  assumes "block_suffix st = ''python-exception''"
  shows "close_fence ev fs pth text start fin st =
     (let source = slice_from (source_start st) start text;
          st0 = st\<lparr>text_start := fin\<rparr>
      in case (if pending_source st = [] then Inr st0 else run_pending ev pth st0) of
           Inl failure \<Rightarrow> Inl failure
         | Inr st1 \<Rightarrow>
             (let unit = replicate (count_nl (slice_to (source_start st) text)) CHR ''\<newline>'' @ source;
                  r = run ev pth unit (install_overrides (ctxt st1));
                  st3 = st1\<lparr>pending_source := unit,
                            yielded := yielded st @ [''```python-exception'', source, ''```''],
                            ctxt := restore_print (new_context r)\<rparr>
              in case raised r of
                   None \<Rightarrow> Inl (AssertionError ''Exception not raised'', st3)
                 | Some e \<Rightarrow>
                     Inr (st3\<lparr>pending_source := [],
                              pending_output := pending_output st1 @
                                (if captured r \<noteq> []
                                 then captured r @ ''Traceback ...\<newline>'' @ exception_line e
                                 else exception_line e)\<rparr>)))
   \<and> run_pending ev pth st =
     (let r = run ev pth (pending_source st) (install_overrides (ctxt st))
      in case raised r of
           None \<Rightarrow> Inr (st\<lparr>ctxt := restore_print (new_context r),
                           pending_output := pending_output st @ captured r,
                           pending_source := []\<rparr>)
         | Some e \<Rightarrow> Inl (MarkdownExecError e, st\<lparr>ctxt := restore_print (new_context r)\<rparr>))"
proof -
  have flush: "run_pending ev pth st =
     (let r = run ev pth (pending_source st) (install_overrides (ctxt st))
      in case raised r of
           None \<Rightarrow> Inr (st\<lparr>ctxt := restore_print (new_context r),
                           pending_output := pending_output st @ captured r,
                           pending_source := []\<rparr>)
         | Some e \<Rightarrow> Inl (MarkdownExecError e, st\<lparr>ctxt := restore_print (new_context r)\<rparr>))" for st
    by (simp add: run_pending_def exec_source_def restore_print_def Let_def split: option.split)
  have acc: "pending_source s = [] \<Longrightarrow>
      pending_source (accumulate text source s) =
        replicate (count_nl (slice_to (source_start s) text)) CHR ''\<newline>'' @ source" for s source
    by (simp add: accumulate_def Let_def count_nl_def)
  show ?thesis
    using assms
    apply (simp only: flush [of st] simp_thms)
    apply (simp add: close_fence_def python_block_def Let_def)
    apply (cases "pending_source st = []")
     apply (simp_all add: flush exec_exception_def exec_source_def accumulate_def yield_def
        restore_print_def count_nl_def Let_def split: option.split)
    done
qed

text \<open>The first block of \<^term>\<open>accum_doc\<close>: its source raises \<^verbatim>\<open>ValueError('boom')\<close>.\<close>

theorem python_exception_block_witness:
  "block_suffix (open_fence accum_doc 0 3 (initial_state Map.empty)) = ''python-exception''
   \<and> (case close_fence toy_env Map.empty ''a.md'' accum_doc 45 48
              (open_fence accum_doc 0 3 (initial_state Map.empty)) of
         Inl failure \<Rightarrow> False
       | Inr st \<Rightarrow> pending_output st = ''ValueError: boom'' \<and> pending_source st = []
           \<and> yielded st = [[], ''```python-exception'', ''\<newline>raise ValueError('boom')\<newline>'', ''```''])"
proof -
  have tag: "block_suffix (open_fence accum_doc 0 3 (initial_state Map.empty)) = ''python-exception''"
    by (simp add: accum_doc_def model_defs)
  show ?thesis
    using tag python_exception_block [OF tag, of toy_env Map.empty "''a.md''" accum_doc 45 48]
    by (simp add: accum_doc_def model_defs toy_defs)
qed

text \<open>
  C3, as stated, fails where the source of the block raises nothing: the source of
  \<^term>\<open>calm_doc\<close> prints \<^verbatim>\<open>4\<close> and returns, and the pass does not hand \<^verbatim>\<open>4\<close> to the
  output block but ends with \<^verbatim>\<open>AssertionError('Exception not raised')\<close>.
\<close>

theorem python_exception_block_without_exception:
  "raised (toy_run ''a.md'' ''\<newline>print(2 + 2)\<newline>'' (install_overrides Map.empty)) = None
   \<and> captured (toy_run ''a.md'' ''\<newline>print(2 + 2)\<newline>'' (install_overrides Map.empty)) = ''4\<newline>''
   \<and> (case iterate_blocks toy_env Map.empty ''a.md'' calm_doc Map.empty of
         Inl (e, st) \<Rightarrow> e = AssertionError ''Exception not raised''
       | Inr st \<Rightarrow> False)"
  by (simp add: calm_doc_def model_defs toy_defs)

subsection \<open>The pending output\<close>




subsection \<open>The exception line\<close>

text \<open>The matcher finds exactly the words of the language of the pattern.\<close>

lemma not_path_char_dot: "\<not> path_char CHR ''.''"
  by (simp add: path_char_def)

lemma match_filename_complete:
  assumes "filename_re_word w"
  shows "match_filename (w @ b) = Some (length w)"
proof -
  from assms obtain dots body ext where w: "w = dots @ ''/'' @ body @ ext"
    and dots: "dots = [] \<or> dots = ''.'' \<or> dots = ''..''"
    and body: "body \<noteq> []" "list_all path_char body"
    and ext: "ext = ''.py'' \<or> ext = ''.md''"
    unfolding filename_re_word_def by blast
  have d: "takeWhile (\<lambda>c. c = CHR ''.'') (w @ b) = dots"
    using dots by (auto simp: w)
  have b1: "takeWhile path_char (body @ ext @ b) = body"
  proof -
    obtain e es where "ext @ b = e # es" "\<not> path_char e"
      using ext not_path_char_dot by auto
    then show ?thesis
      using body(2) by (simp add: takeWhile_tail list_all_iff)
  qed
  have len: "length dots \<le> 2"
    using dots by auto
  have rest: "drop (length dots) (w @ b) = CHR ''/'' # body @ ext @ b"
    by (simp add: w)
  have lw: "length w = length dots + 1 + length body + 3"
    using ext by (auto simp: w)
  show ?thesis
    unfolding match_filename_def d Let_def rest
    using len body(1) ext by (auto simp: b1 lw startswith_def)
qed

lemma dots_cases:
  assumes "\<forall>c \<in> set ds. c = CHR ''.''" and "length ds \<le> 2"
  shows "ds = [] \<or> ds = ''.'' \<or> ds = ''..''"
proof (cases ds)
  case Nil
  then show ?thesis by simp
next
  case (Cons a as)
  note outer = this
  show ?thesis
  proof (cases as)
    case Nil
    with outer assms show ?thesis by simp
  next
    case (Cons a' as')
    with outer assms show ?thesis by simp
  qed
qed

lemma match_filename_sound:
  assumes "match_filename s = Some n"
  shows "\<exists>w b. s = w @ b \<and> filename_re_word w \<and> n = length w"
proof -
  define dots where "dots = takeWhile (\<lambda>c. c = CHR ''.'') s"
  define s1 where "s1 = drop (length dots) s"
  have s: "s = dots @ s1"
    by (simp add: dots_def s1_def flip: dropWhile_eq_drop)
  have dl: "length dots \<le> 2"
    using assms by (auto simp: match_filename_def Let_def dots_def split: if_splits)
  have "\<forall>c \<in> set dots. c = CHR ''.''"
    unfolding dots_def by (auto dest: set_takeWhileD)
  then have dots: "dots = [] \<or> dots = ''.'' \<or> dots = ''..''"
    using dl by (rule dots_cases)
  from assms dl obtain s2 where s1: "s1 = CHR ''/'' # s2"
    by (auto simp: match_filename_def Let_def dots_def s1_def split: if_splits list.splits)
  define body where "body = takeWhile path_char s2"
  define s3 where "s3 = drop (length body) s2"
  have s2: "s2 = body @ s3"
    by (simp add: body_def s3_def flip: dropWhile_eq_drop)
  have inner: "body \<noteq> [] \<and> (startswith s3 ''.py'' \<or> startswith s3 ''.md'')
      \<and> n = length dots + 1 + length body + 3"
    using assms dl s1
    by (auto simp: match_filename_def Let_def dots_def [symmetric] s1_def [symmetric]
        body_def [symmetric] s3_def [symmetric] split: if_splits)
  define ext where "ext = take (length ''.py'') s3"
  have ext: "ext = ''.py'' \<or> ext = ''.md''"
    using inner by (simp add: startswith_def ext_def)
  have s3: "s3 = ext @ drop (length ''.py'') s3"
    unfolding ext_def by (rule append_take_drop_id [symmetric])
  have pc: "list_all path_char body"
    unfolding body_def by (auto simp: list_all_iff dest: set_takeWhileD)
  let ?w = "dots @ ''/'' @ body @ ext"
  have "s = ?w @ drop (length ''.py'') s3"
    using s s1 s2 s3 by (simp del: length_Cons list.size)
  moreover have "filename_re_word ?w"
    unfolding filename_re_word_def using dots inner pc ext by blast
  moreover have "n = length ?w"
    using inner ext by auto
  ultimately show ?thesis by blast
qed

lemma sub_skip_past: "sub_skip (length xs) (xs @ ys) = sub_skip 0 ys"
  by (induction xs) simp_all

lemma filename_sub_match:
  assumes "filename_re_word w"
  shows "filename_sub (w @ b) = ''my_code.py'' @ filename_sub b"
proof -
  from assms obtain c cs where w: "w = c # cs"
    by (cases w) (auto simp: filename_re_word_def)
  have "match_filename (c # cs @ b) = Some (length w)"
    using match_filename_complete [OF assms, of b] by (simp add: w)
  then have "sub_skip 0 (c # cs @ b) = ''my_code.py'' @ sub_skip (length cs) (cs @ b)"
    by (simp add: w)
  then show ?thesis
    by (simp add: filename_sub_def w sub_skip_past)
qed

lemma filename_sub_no_match:
  assumes "\<forall>w. filename_re_word w \<longrightarrow> (\<forall>b. ch # s \<noteq> w @ b)"
  shows "filename_sub (ch # s) = ch # filename_sub s"
proof -
  have "match_filename (ch # s) = None"
  proof (cases "match_filename (ch # s)")
    case None
    then show ?thesis .
  next
    case (Some n)
    from match_filename_sound [OF this] assms show ?thesis by blast
  qed
  then show ?thesis
    by (simp add: filename_sub_def)
qed

text \<open>
  C4, as the code has it. When the source raises \<open>e\<close>, \<^verbatim>\<open>exec_exception\<close> returns the class name of \<open>e\<close>, a
  colon and a space, and the message of \<open>e\<close> after the substitution; when output was
  captured before the exception, the output and the line \<^verbatim>\<open>Traceback ...\<close> come first.
  The substitution replaces a word of the pattern at the head of the text by
  \<^verbatim>\<open>my_code.py\<close> and goes on behind it, and keeps a character at which no word of the
  pattern starts: what is replaced is every match of \<^verbatim>\<open>filename_re\<close> that the scan from
  the left meets, and nothing else. For \<^verbatim>\<open>ValueError('boom')\<close>
  without output the result is \<^verbatim>\<open>ValueError: boom\<close>, a result and not a failure.
\<close>

theorem exec_exception_normalizes:
  assumes "raised (rt pth source (install_overrides c)) = Some e"
  shows "snd (exec_exception rt pth source c) =
           Inr ((if captured (rt pth source (install_overrides c)) = [] then []
                 else captured (rt pth source (install_overrides c)) @ ''Traceback ...\<newline>'')
                @ class_name e @ '': '' @ filename_sub (message e))
       \<and> (\<forall>w b. filename_re_word w \<longrightarrow> filename_sub (w @ b) = ''my_code.py'' @ filename_sub b)
       \<and> (\<forall>ch s. (\<forall>w. filename_re_word w \<longrightarrow> (\<forall>b. ch # s \<noteq> w @ b)) \<longrightarrow>
              filename_sub (ch # s) = ch # filename_sub s)
       \<and> filename_sub [] = []
       \<and> (class_name e = ''ValueError'' \<and> message e = ''boom''
            \<and> captured (rt pth source (install_overrides c)) = [] \<longrightarrow>
          snd (exec_exception rt pth source c) = Inr ''ValueError: boom'')"
proof -
  have shape: "snd (exec_exception rt pth source c) =
           Inr ((if captured (rt pth source (install_overrides c)) = [] then []
                 else captured (rt pth source (install_overrides c)) @ ''Traceback ...\<newline>'')
                @ class_name e @ '': '' @ filename_sub (message e))"
    using assms
    by (simp add: exec_exception_def exec_source_def exception_line_def Let_def)
  have boom: "filename_sub ''boom'' = ''boom''"
    by (simp add: filename_sub_def match_filename_def)
  have empty: "filename_sub [] = []"
    by (simp add: filename_sub_def)
  show ?thesis
    using shape boom empty filename_sub_match filename_sub_no_match
    by (auto simp del: append_assoc)
qed

text \<open>
  With the example interpreter: \<^verbatim>\<open>raise ValueError('boom')\<close>, a message with a relative
  path behind captured output, and the pass over \<^term>\<open>boom_doc\<close>, which succeeds and
  writes the exception line into the output block.
\<close>

theorem exec_exception_normalizes_witness:
  "raised (toy_run ''a.md'' ''\<newline>raise ValueError('boom')\<newline>'' (install_overrides Map.empty)) =
     Some \<lparr>class_name = ''ValueError'', message = ''boom''\<rparr>
   \<and> snd (exec_exception toy_run ''a.md'' ''\<newline>raise ValueError('boom')\<newline>'' Map.empty) =
       Inr ''ValueError: boom''
   \<and> filename_re_word ''./ch1/example.py''
   \<and> filename_sub ''./ch1/example.py'' = ''my_code.py''
   \<and> snd (exec_exception toy_run ''a.md''
            ''print(2 + 2)\<newline>raise ValueError('see ./ch1/example.py')'' Map.empty) =
       Inr ''4\<newline>Traceback ...\<newline>ValueError: see my_code.py''
   \<and> (case iterate_blocks toy_env Map.empty ''a.md'' boom_doc Map.empty of
         Inl failure \<Rightarrow> False
       | Inr st \<Rightarrow> concat (yielded st) =
           ''```python-exception\<newline>raise ValueError('boom')\<newline>```\<newline>```\<newline>ValueError: boom\<newline>```\<newline>'')"
proof -
  have raises: "raised (toy_run ''a.md'' ''\<newline>raise ValueError('boom')\<newline>'' (install_overrides Map.empty)) =
     Some \<lparr>class_name = ''ValueError'', message = ''boom''\<rparr>"
    by (simp add: toy_defs)
  have quiet: "captured (toy_run ''a.md'' ''\<newline>raise ValueError('boom')\<newline>'' (install_overrides Map.empty)) = []"
    by (simp add: toy_defs)
  note facts = exec_exception_normalizes
      [of toy_run "''a.md''" "''\<newline>raise ValueError('boom')\<newline>''" Map.empty, OF raises]
  have line: "snd (exec_exception toy_run ''a.md'' ''\<newline>raise ValueError('boom')\<newline>'' Map.empty) =
       Inr ''ValueError: boom''"
  proof -
    from facts have "class_name \<lparr>class_name = ''ValueError'', message = ''boom''\<rparr> = ''ValueError''
        \<and> message \<lparr>class_name = ''ValueError'', message = ''boom''\<rparr> = ''boom''
        \<and> captured (toy_run ''a.md'' ''\<newline>raise ValueError('boom')\<newline>''
              (install_overrides Map.empty)) = [] \<longrightarrow>
        snd (exec_exception toy_run ''a.md'' ''\<newline>raise ValueError('boom')\<newline>'' Map.empty) =
          Inr ''ValueError: boom''"
      by blast
    with quiet show ?thesis by simp
  qed
  have path: "filename_re_word ''./ch1/example.py''"
    unfolding filename_re_word_def
    by (rule exI [of _ "''.''"], rule exI [of _ "''ch1/example''"], rule exI [of _ "''.py''"])
      (simp add: path_char_def)
  have "filename_sub (''./ch1/example.py'' @ []) = ''my_code.py'' @ filename_sub []"
    using facts path by blast
  moreover from facts have "filename_sub [] = []"
    by blast
  ultimately have replaced: "filename_sub ''./ch1/example.py'' = ''my_code.py''"
    by simp
  have partial: "snd (exec_exception toy_run ''a.md''
            ''print(2 + 2)\<newline>raise ValueError('see ./ch1/example.py')'' Map.empty) =
       Inr ''4\<newline>Traceback ...\<newline>ValueError: see my_code.py''"
    by code_simp
  have doc: "case iterate_blocks toy_env Map.empty ''a.md'' boom_doc Map.empty of
         Inl failure \<Rightarrow> False
       | Inr st \<Rightarrow> concat (yielded st) =
           ''```python-exception\<newline>raise ValueError('boom')\<newline>```\<newline>```\<newline>ValueError: boom\<newline>```\<newline>''"
    by code_simp
  show ?thesis
    by (rule conjI [OF raises conjI [OF line conjI [OF path conjI [OF replaced conjI [OF partial doc]]]]])
qed

text \<open>
  C4, as stated, fails: not every substring that looks like the path of a file is
  replaced by the placeholder. Of the relative path \<^verbatim>\<open>ch1/example.py\<close> the directory
  stays; of \<^verbatim>\<open>/usr/lib/python3.11/ast.py\<close> all but the file name stays, since the dot
  of the directory ends the match; a path that ends in \<^verbatim>\<open>.txt\<close> is kept as it is, also
  in the result of \<^verbatim>\<open>exec_exception\<close>.
\<close>

theorem filename_sub_misses_paths:
  "file_path_looking ''ch1/example.py''
   \<and> filename_sub ''see ch1/example.py'' = ''see ch1my_code.py''
   \<and> file_path_looking ''/usr/lib/python3.11/ast.py''
   \<and> filename_sub ''/usr/lib/python3.11/ast.py'' = ''/usr/lib/python3.11my_code.py''
   \<and> file_path_looking ''/home/alice/notes.txt''
   \<and> filename_sub ''/home/alice/notes.txt'' = ''/home/alice/notes.txt''
   \<and> snd (exec_exception
          (\<lambda>pth source c.
             \<lparr>new_context = c, captured = [],
              raised = Some \<lparr>class_name = ''FileNotFoundError'',
                              message = ''/home/alice/notes.txt''\<rparr>\<rparr>)
          ''a.md'' [] Map.empty) = Inr ''FileNotFoundError: /home/alice/notes.txt''"
  by code_simp

subsection \<open>Overwriting the file\<close>

text \<open>
  C5. With \<^verbatim>\<open>--overwrite\<close>, when the pass over a file fails (with any exception, at any
  fragment), the files and the standard output are what they were, the status of the
  process is 1, and the paths behind the failing one are not looked at: the run is the
  run on the failing path alone. When the pass succeeds the file is replaced by all its
  fragments and the loop goes on, on the namespace the pass left.
\<close>

theorem overwrite_only_after_success:
  assumes "overwrite ev" and "files w pth = Some text"
  shows "(\<forall>e st. iterate_blocks ev (files w) pth text (globals w) = Inl (e, st) \<longrightarrow>
            files (snd (main_loop ev (pth # rest) w)) = files w
          \<and> stdout (snd (main_loop ev (pth # rest) w)) = stdout w
          \<and> exit_status (fst (main_loop ev (pth # rest) w)) = 1
          \<and> main_loop ev (pth # rest) w = main_loop ev [pth] w)
       \<and> (\<forall>st. iterate_blocks ev (files w) pth text (globals w) = Inr st \<longrightarrow>
            main_loop ev (pth # rest) w =
              main_loop ev rest
                (w\<lparr>globals := ctxt st, files := (files w)(pth \<mapsto> concat (yielded st))\<rparr>))"
proof (intro conjI allI impI)
  fix e st
  assume failed: "iterate_blocks ev (files w) pth text (globals w) = Inl (e, st)"
  have step: "print_iter ev pth (Inl (e, st)) w = (Some e, w\<lparr>globals := ctxt st\<rparr>)"
    using assms(1) by (simp add: print_iter_def)
  show "files (snd (main_loop ev (pth # rest) w)) = files w"
    using assms(2) failed step by (cases e) simp_all
  show "stdout (snd (main_loop ev (pth # rest) w)) = stdout w"
    using assms(2) failed step by (cases e) simp_all
  show "exit_status (fst (main_loop ev (pth # rest) w)) = 1"
    using assms(2) failed step by (cases e) (simp_all add: exit_status_def)
  show "main_loop ev (pth # rest) w = main_loop ev [pth] w"
    using assms(2) failed step by (cases e) simp_all
next
  fix st
  assume "iterate_blocks ev (files w) pth text (globals w) = Inr st"
  then show "main_loop ev (pth # rest) w =
      main_loop ev rest
        (w\<lparr>globals := ctxt st, files := (files w)(pth \<mapsto> concat (yielded st))\<rparr>)"
    using assms by (simp add: print_iter_def)
qed

text \<open>
  \<^verbatim>\<open>a.md\<close> fails with a \<^verbatim>\<open>NameError\<close> at the end of its pass: no file changes and the
  status is 1.
\<close>

theorem overwrite_only_after_success_witness:
  "overwrite overwrite_env
   \<and> files batch_world ''a.md'' = Some trailing_doc
   \<and> (case iterate_blocks overwrite_env (files batch_world) ''a.md'' trailing_doc
              (globals batch_world) of
         Inl (e, st) \<Rightarrow> True | Inr st \<Rightarrow> False)
   \<and> files (snd (main_loop overwrite_env [''a.md'', ''b.md''] batch_world)) = files batch_world
   \<and> exit_status (fst (main_loop overwrite_env [''a.md'', ''b.md''] batch_world)) = 1"
proof -
  have flag: "overwrite overwrite_env"
    by (simp add: overwrite_env_def toy_env_def)
  have readable: "files batch_world ''a.md'' = Some trailing_doc"
    by (simp add: batch_world_def)
  have failed: "iterate_blocks overwrite_env (files batch_world) ''a.md'' trailing_doc
      (globals batch_world) =
      Inl (MarkdownExecError
              \<lparr>class_name = ''NameError'', message = ''name 'x' is not defined''\<rparr>,
           after_loop (iterate_blocks overwrite_env (files batch_world) ''a.md'' trailing_doc
             (globals batch_world)))"
    by (simp add: overwrite_env_def batch_world_def trailing_doc_def model_defs toy_defs)
  have pass: "case iterate_blocks overwrite_env (files batch_world) ''a.md'' trailing_doc
              (globals batch_world) of
         Inl (e, st) \<Rightarrow> True | Inr st \<Rightarrow> False"
    by (subst failed) simp
  have kept: "files (snd (main_loop overwrite_env [''a.md'', ''b.md''] batch_world)) = files batch_world"
    and status: "exit_status (fst (main_loop overwrite_env [''a.md'', ''b.md''] batch_world)) = 1"
    using overwrite_only_after_success [OF flag readable, of "[''b.md'']"] failed
    by blast+
  show ?thesis
    by (rule conjI [OF flag conjI [OF readable conjI [OF pass conjI [OF kept status]]]])
qed

subsection \<open>The namespace\<close>

text \<open>
  The namespace behind a closing fence, behind the pass, and behind one path of the
  batch.
\<close>

lemma close_fence_namespace:
  "ctxt (after_loop (close_fence ev fs pth text start fin st)) =
     (let left = (\<lambda>c source. (new_context (run ev pth source (install_overrides c)))
                                (''print'' \<mapsto> REAL_PRINT));
          unit = replicate (count_nl (slice_to (source_start st) text)) CHR ''\<newline>''
                 @ slice_from (source_start st) start text
      in if block_suffix st = ''python-exception''
         then (if pending_source st = [] then left (ctxt st) unit
               else if raised (run ev pth (pending_source st) (install_overrides (ctxt st))) = None
               then left (left (ctxt st) (pending_source st)) unit
               else left (ctxt st) (pending_source st))
         else if \<not> recognized (block_suffix st) \<and> pending_source st \<noteq> []
         then left (ctxt st) (pending_source st)
         else ctxt st)"
proof -
  have src: "exec_source rt pth source c flag =
      ((new_context (rt pth source (install_overrides c)))(''print'' \<mapsto> REAL_PRINT),
       case raised (rt pth source (install_overrides c)) of
         None \<Rightarrow> Inr (captured (rt pth source (install_overrides c)))
       | Some e \<Rightarrow> Inl (if flag then WrappedException (captured (rt pth source (install_overrides c))) e
                         else MarkdownExecError e))" for rt source c flag
    by (simp add: exec_source_def restore_print_def Let_def split: option.split)
  show ?thesis
  proof (cases "block_suffix st = ''python-exception''")
    case True
    then show ?thesis
      by (cases "pending_source st = []")
        (auto simp: close_fence_def python_block_def run_pending_def exec_exception_def src
          accumulate_def yield_def after_loop_def count_nl_def Let_def split: option.split)
  next
    case False
    then show ?thesis
      by (auto simp: close_fence_def python_block_def python2_block_def syntax_error_block_def
          include_block_def output_block_def run_pending_def src recognized_def
          accumulate_def yield_def after_loop_def Let_def split: option.split sum.split)
  qed
qed

lemma main_loop_step:
  assumes "files w pth = Some doc"
  shows "globals (snd (main_loop ev [pth] w)) =
      ctxt (after_loop (iterate_blocks ev (files w) pth doc (globals w)))
    \<and> main_loop ev (pth # rest) w =
      (if fst (main_loop ev [pth] w) = Inr 0
       then main_loop ev rest (snd (main_loop ev [pth] w))
       else main_loop ev [pth] w)"
proof (cases "iterate_blocks ev (files w) pth doc (globals w)")
  case (Inl failure)
  obtain e st where "failure = (e, st)"
    by (cases failure)
  with Inl assms show ?thesis
    by (cases e) (simp_all add: print_iter_def after_loop_def)
next
  case (Inr st)
  with assms show ?thesis
    by (simp add: print_iter_def after_loop_def)
qed

lemma iterate_blocks_namespace:
  "ctxt (after_loop (iterate_blocks ev fs pth text c)) =
     (case blocks_loop ev fs pth text 0 (finditer text) (initial_state c) of
        Inl (e, st1) \<Rightarrow> ctxt st1
      | Inr st1 \<Rightarrow>
          if pending_source st1 \<noteq> []
          then (new_context (run ev pth (pending_source st1) (install_overrides (ctxt st1))))
                 (''print'' \<mapsto> REAL_PRINT)
          else ctxt st1)"
  by (simp add: iterate_blocks_def finish_def exec_source_def restore_print_def yield_def
      after_loop_def Let_def split: sum.split prod.split option.split)

text \<open>
  C6, as the code has it. Write \<open>left c source\<close> for the namespace an execution of
  \<open>source\<close> leaves when it starts from \<open>c\<close>: what the snippet left, with \<^verbatim>\<open>print\<close>
  restored. The namespace is threaded through the pass and through the batch, and
  nothing ever resets it. Every fence starts from the state, and so from the namespace,
  that the fences before it left. An opening fence does not touch the namespace. Behind a
  closing fence the namespace is the one before it, changed by exactly the executions of
  that fence, each of which starts from what the one before it left: the flush and then
  the unit of a \<^verbatim>\<open>python-exception\<close> block, the flush of an output block, nothing
  otherwise. Behind the pass it is the namespace behind the last fence, changed by the
  execution of the source still pending. And the loop over the paths hands the namespace
  behind the pass of one path to the pass of the next.
\<close>

theorem namespace_is_threaded:
  "(let left = (\<lambda>c source. (new_context (run ev pth source (install_overrides c)))
                               (''print'' \<mapsto> REAL_PRINT))
    in (\<forall>n st1.
          n < length (finditer text)
          \<and> blocks_loop ev fs pth text 0 (take n (finditer text)) (initial_state c) = Inr st1 \<longrightarrow>
          blocks_loop ev fs pth text 0 (take (Suc n) (finditer text)) (initial_state c) =
            (if n mod 2 = 0
             then Inr (open_fence text (finditer text ! n) (finditer text ! n + 3) st1)
             else close_fence ev fs pth text (finditer text ! n) (finditer text ! n + 3) st1))
     \<and> ctxt (initial_state c) = c
     \<and> ctxt (open_fence text start fin st) = ctxt st
     \<and> ctxt (after_loop (close_fence ev fs pth text start fin st)) =
         (let unit = replicate (count_nl (slice_to (source_start st) text)) CHR ''\<newline>''
                     @ slice_from (source_start st) start text
          in if block_suffix st = ''python-exception''
             then (if pending_source st = [] then left (ctxt st) unit
                   else if raised (run ev pth (pending_source st) (install_overrides (ctxt st)))
                           = None
                   then left (left (ctxt st) (pending_source st)) unit
                   else left (ctxt st) (pending_source st))
             else if \<not> recognized (block_suffix st) \<and> pending_source st \<noteq> []
             then left (ctxt st) (pending_source st)
             else ctxt st)
     \<and> ctxt (after_loop (iterate_blocks ev fs pth text c)) =
         (case blocks_loop ev fs pth text 0 (finditer text) (initial_state c) of
            Inl (e, st1) \<Rightarrow> ctxt st1
          | Inr st1 \<Rightarrow>
              if pending_source st1 \<noteq> [] then left (ctxt st1) (pending_source st1)
              else ctxt st1)
     \<and> (\<forall>doc rest.
          files w pth = Some doc \<longrightarrow>
          globals (snd (main_loop ev [pth] w)) =
            ctxt (after_loop (iterate_blocks ev (files w) pth doc (globals w)))
          \<and> main_loop ev (pth # rest) w =
              (if fst (main_loop ev [pth] w) = Inr 0
               then main_loop ev rest (snd (main_loop ev [pth] w))
               else main_loop ev [pth] w)))"
proof -
  have a: "\<forall>n st1.
          n < length (finditer text)
          \<and> blocks_loop ev fs pth text 0 (take n (finditer text)) (initial_state c) = Inr st1 \<longrightarrow>
          blocks_loop ev fs pth text 0 (take (Suc n) (finditer text)) (initial_state c) =
            (if n mod 2 = 0
             then Inr (open_fence text (finditer text ! n) (finditer text ! n + 3) st1)
             else close_fence ev fs pth text (finditer text ! n) (finditer text ! n + 3) st1)"
    using blocks_loop_next by blast
  have b: "ctxt (initial_state c) = c"
    by (simp add: initial_state_def)
  have d: "ctxt (open_fence text start fin st) = ctxt st"
    by (simp add: open_fence_def yield_def Let_def)
  have e: "\<forall>doc rest.
          files w pth = Some doc \<longrightarrow>
          globals (snd (main_loop ev [pth] w)) =
            ctxt (after_loop (iterate_blocks ev (files w) pth doc (globals w)))
          \<and> main_loop ev (pth # rest) w =
              (if fst (main_loop ev [pth] w) = Inr 0
               then main_loop ev rest (snd (main_loop ev [pth] w))
               else main_loop ev [pth] w)"
    using main_loop_step by blast
  show ?thesis
    unfolding Let_def
    using a b d e close_fence_namespace [of ev fs pth "text" start fin st]
      iterate_blocks_namespace [of ev fs pth "text" c]
    unfolding Let_def by blast
qed

text \<open>
  In \<^term>\<open>two_step_doc\<close> the namespace before the closing fence of the first output block
  has no \<^verbatim>\<open>x\<close>; behind that fence it has, and the second output block shows the \<^verbatim>\<open>2\<close>
  that the later block printed. In the batch the second path starts from the world that
  the first path left.
\<close>

theorem namespace_is_threaded_witness:
  "3 < length (finditer two_step_doc)
   \<and> blocks_loop toy_env Map.empty ''a.md'' two_step_doc 0 (take 3 (finditer two_step_doc))
        (initial_state Map.empty) = Inr two_step_state
   \<and> blocks_loop toy_env Map.empty ''a.md'' two_step_doc 0 (take (Suc 3) (finditer two_step_doc))
        (initial_state Map.empty) =
       close_fence toy_env Map.empty ''a.md'' two_step_doc (finditer two_step_doc ! 3)
         (finditer two_step_doc ! 3 + 3) two_step_state
   \<and> ctxt two_step_state ''x'' = None
   \<and> ctxt (after_loop (close_fence toy_env Map.empty ''a.md'' two_step_doc
               (finditer two_step_doc ! 3) (finditer two_step_doc ! 3 + 3) two_step_state)) ''x''
       = Some (Obj ''2'')
   \<and> (case iterate_blocks toy_env Map.empty ''a.md'' two_step_doc Map.empty of
         Inl failure \<Rightarrow> False
       | Inr st \<Rightarrow> concat (yielded st) =
           ''```python\<newline>x = 2\<newline>```\<newline>```\<newline>\<newline>```\<newline>```python\<newline>print(x)\<newline>```\<newline>```\<newline>2\<newline>```\<newline>'')
   \<and> files pair_world ''a.md'' = Some define_doc
   \<and> globals (snd (main_loop toy_env [''a.md''] pair_world)) ''x'' = Some (Obj ''2'')
   \<and> fst (main_loop toy_env [''a.md''] pair_world) = Inr 0
   \<and> main_loop toy_env [''a.md'', ''b.md''] pair_world =
       main_loop toy_env [''b.md''] (snd (main_loop toy_env [''a.md''] pair_world))"
proof -
  note facts = namespace_is_threaded
    [of toy_env "''a.md''" two_step_doc Map.empty Map.empty 0 0 two_step_state pair_world,
      unfolded Let_def]
  have n: "3 < length (finditer two_step_doc)"
    by code_simp
  have pre: "blocks_loop toy_env Map.empty ''a.md'' two_step_doc 0 (take 3 (finditer two_step_doc))
        (initial_state Map.empty) = Inr two_step_state"
    by (simp add: two_step_state_def two_step_doc_def model_defs toy_defs del: fun_upd_apply)
  have "blocks_loop toy_env Map.empty ''a.md'' two_step_doc 0
        (take (Suc 3) (finditer two_step_doc)) (initial_state Map.empty) =
       (if 3 mod 2 = (0::nat)
        then Inr (open_fence two_step_doc (finditer two_step_doc ! 3)
                   (finditer two_step_doc ! 3 + 3) two_step_state)
        else close_fence toy_env Map.empty ''a.md'' two_step_doc (finditer two_step_doc ! 3)
               (finditer two_step_doc ! 3 + 3) two_step_state)"
    by (rule facts [THEN conjunct1, rule_format, OF conjI [OF n pre]])
  moreover have "((3::nat) mod 2 = 0) = False"
    by simp
  ultimately have next_fence: "blocks_loop toy_env Map.empty ''a.md'' two_step_doc 0
        (take (Suc 3) (finditer two_step_doc)) (initial_state Map.empty) =
       close_fence toy_env Map.empty ''a.md'' two_step_doc (finditer two_step_doc ! 3)
         (finditer two_step_doc ! 3 + 3) two_step_state"
    by (simp only: if_False)
  have before: "ctxt two_step_state ''x'' = None"
    by code_simp
  have after: "ctxt (after_loop (close_fence toy_env Map.empty ''a.md'' two_step_doc
               (finditer two_step_doc ! 3) (finditer two_step_doc ! 3 + 3) two_step_state)) ''x''
       = Some (Obj ''2'')"
    by code_simp
  have doc: "case iterate_blocks toy_env Map.empty ''a.md'' two_step_doc Map.empty of
         Inl failure \<Rightarrow> False
       | Inr st \<Rightarrow> concat (yielded st) =
           ''```python\<newline>x = 2\<newline>```\<newline>```\<newline>\<newline>```\<newline>```python\<newline>print(x)\<newline>```\<newline>```\<newline>2\<newline>```\<newline>''"
    by code_simp
  have readable: "files pair_world ''a.md'' = Some define_doc"
    by (simp add: pair_world_def)
  have bound: "globals (snd (main_loop toy_env [''a.md''] pair_world)) ''x'' = Some (Obj ''2'')"
    by code_simp
  have ok: "fst (main_loop toy_env [''a.md''] pair_world) = Inr 0"
    by code_simp
  have "main_loop toy_env [''a.md'', ''b.md''] pair_world =
       (if fst (main_loop toy_env [''a.md''] pair_world) = Inr 0
        then main_loop toy_env [''b.md''] (snd (main_loop toy_env [''a.md''] pair_world))
        else main_loop toy_env [''a.md''] pair_world)"
    by (rule facts [THEN conjunct2, THEN conjunct2, THEN conjunct2, THEN conjunct2,
          THEN conjunct2, rule_format, OF readable, THEN conjunct2])
  then have batch: "main_loop toy_env [''a.md'', ''b.md''] pair_world =
       main_loop toy_env [''b.md''] (snd (main_loop toy_env [''a.md''] pair_world))"
    by (simp only: ok simp_thms if_True)
  show ?thesis
    by (rule conjI [OF n conjI [OF pre conjI [OF next_fence conjI [OF before conjI [OF after
          conjI [OF doc conjI [OF readable conjI [OF bound conjI [OF ok batch]]]]]]]]])
qed

text \<open>
  C6, as stated, fails in its last part: a path does not start with a fresh namespace.
  Alone, \<^verbatim>\<open>b.md\<close> fails with a \<^verbatim>\<open>NameError\<close> and the status is 1; behind \<^verbatim>\<open>a.md\<close> it
  finds the \<^verbatim>\<open>x\<close> that \<^verbatim>\<open>a.md\<close> bound, prints it, and the status is 0.
\<close>

theorem namespace_shared_between_paths:
  "globals pair_world ''x'' = None
   \<and> fst (main_loop toy_env [''b.md''] pair_world) = Inr 1
   \<and> globals (snd (main_loop toy_env [''a.md''] pair_world)) ''x'' = Some (Obj ''2'')
   \<and> fst (main_loop toy_env [''a.md'', ''b.md''] pair_world) = Inr 0
   \<and> stdout (snd (main_loop toy_env [''a.md'', ''b.md''] pair_world)) =
       ''```python\<newline>x = 2\<newline>```\<newline>```python\<newline>print(x)\<newline>```\<newline>```\<newline>2\<newline>```\<newline>''"
  by code_simp

subsection \<open>The tag of an opening fence\<close>

text \<open>
  The tag of an opening fence that a line break follows is the lower-cased text between
  the fence and the line break; without a line break the tag and the start of the body
  stay what they were.
\<close>

lemma open_fence_tag:
  "block_suffix (open_fence text start fin st) =
     (if find_nl text fin > 0 then lower (slice fin (nat (find_nl text fin)) text)
      else block_suffix st)"
  by (simp add: open_fence_def yield_def Let_def)

lemma open_fence_source_start:
  "source_start (open_fence text start fin st) =
     (if find_nl text fin > 0
      then Some (fin + length (lower (slice fin (nat (find_nl text fin)) text)))
      else source_start st)"
  by (simp add: open_fence_def yield_def Let_def)

text \<open>
  C8 at the document \<^term>\<open>stale_doc\<close>. No line break follows its second opening fence
  (offset 20). The tag at that fence is not the empty tag: it is still \<^verbatim>\<open>python\<close>, the
  tag of the first block, and the body still starts at offset 9, in the first block. So
  the second block is emitted and accumulated as a \<^verbatim>\<open>python\<close> block whose body is the
  text from the first body to the last fence, and the pass fails on it.
\<close>

theorem fence_without_line_break_keeps_tag:
  "finditer stale_doc = [0, 16, 20, 24]
   \<and> find_nl stale_doc 23 = - 1
   \<and> block_suffix (open_fence stale_doc 20 23 stale_state) = ''python''
   \<and> source_start (open_fence stale_doc 20 23 stale_state) = Some 9
   \<and> (case iterate_blocks toy_env Map.empty ''a.md'' stale_doc Map.empty of
         Inl (e, st) \<Rightarrow>
           e = MarkdownExecError \<lparr>class_name = ''SyntaxError'', message = ''invalid syntax''\<rparr>
           \<and> yielded st =
               [[], ''```python'', ''\<newline>x = 2\<newline>'', ''```'', ''a'',
                ''```python'', ''\<newline>x = 2\<newline>```a```b'', ''```'', []]
       | Inr st \<Rightarrow> False)"
proof -
  have a: "finditer stale_doc = [0, 16, 20, 24]"
    by code_simp
  have b: "find_nl stale_doc 23 = - 1"
    by code_simp
  have c: "block_suffix (open_fence stale_doc 20 23 stale_state) = ''python''"
    by code_simp
  have d: "source_start (open_fence stale_doc 20 23 stale_state) = Some 9"
    by code_simp
  have e: "case iterate_blocks toy_env Map.empty ''a.md'' stale_doc Map.empty of
         Inl (e, st) \<Rightarrow>
           e = MarkdownExecError \<lparr>class_name = ''SyntaxError'', message = ''invalid syntax''\<rparr>
           \<and> yielded st =
               [[], ''```python'', ''\<newline>x = 2\<newline>'', ''```'', ''a'',
                ''```python'', ''\<newline>x = 2\<newline>```a```b'', ''```'', []]
       | Inr st \<Rightarrow> False"
    by code_simp
  show ?thesis
    by (rule conjI [OF a conjI [OF b conjI [OF c conjI [OF d e]]]])
qed

subsection \<open>The line padding\<close>

text \<open>
  When the pending source has no more line breaks than the document has before the
  body, the padding brings it to exactly that number: the body starts in the pending
  source on the line on which it starts in the document.
\<close>

lemma accumulate_aligned:
  assumes "count_nl (pending_source st) \<le> count_nl (slice_to (source_start st) text)"
  shows "\<exists>padding. pending_source (accumulate text source st) = pending_source st @ padding @ source
      \<and> padding = replicate (count_nl (slice_to (source_start st) text)
                                - count_nl (pending_source st)) CHR ''\<newline>''
      \<and> count_nl (pending_source st @ padding) = count_nl (slice_to (source_start st) text)"
  using assms by (simp add: accumulate_def count_nl_def Let_def nat_diff_distrib')

text \<open>
  The matches of the delimiter are at backticks, three characters or more apart. The tag
  \<^verbatim>\<open>python\<close> has no backtick, so the body of a block with that tag ends at the closing
  fence or before. Hence in a document in which a line break follows every opening
  fence, the state behind every opening fence is aligned, and the padding puts the body
  on its line.
\<close>

lemma fence_starts_backtick:
  "s \<in> set (fence_starts i t) \<Longrightarrow> i \<le> s \<and> s - i < length t \<and> t ! (s - i) = CHR ''`''"
proof (induction i t rule: fence_starts.induct)
  case (1 i a b c cs)
  show ?case
  proof (cases "a = CHR ''`'' \<and> b = CHR ''`'' \<and> c = CHR ''`''")
    case True
    with "1.prems" have "s = i \<or> s \<in> set (fence_starts (i + 3) cs)"
      by simp
    then show ?thesis
    proof
      assume "s = i"
      with True show ?thesis by simp
    next
      assume "s \<in> set (fence_starts (i + 3) cs)"
      from "1.IH"(1) [OF True this]
      have "i + 3 \<le> s" "s - (i + 3) < length cs" "cs ! (s - (i + 3)) = CHR ''`''"
        by simp_all
      moreover from \<open>i + 3 \<le> s\<close> have "s - i = Suc (Suc (Suc (s - (i + 3))))"
        by simp
      ultimately show ?thesis by simp
    qed
  next
    case False
    with "1.prems" have "s \<in> set (fence_starts (Suc i) (b # c # cs))"
      by auto
    from "1.IH"(2) [OF False this]
    have "Suc i \<le> s" "s - Suc i < length (b # c # cs)" "(b # c # cs) ! (s - Suc i) = CHR ''`''"
      by simp_all
    moreover from \<open>Suc i \<le> s\<close> have "s - i = Suc (s - Suc i)"
      by simp
    ultimately show ?thesis by simp
  qed
qed simp_all

lemma fence_starts_apart: "sorted_wrt (\<lambda>a b. a + 3 \<le> b) (fence_starts i t)"
proof (induction i t rule: fence_starts.induct)
  case (1 i a b c cs)
  show ?case
  proof (cases "a = CHR ''`'' \<and> b = CHR ''`'' \<and> c = CHR ''`''")
    case True
    have "\<forall>s \<in> set (fence_starts (i + 3) cs). i + 3 \<le> s"
      by (auto dest: fence_starts_backtick)
    with True "1.IH"(1) show ?thesis by simp
  next
    case False
    with "1.IH"(2) show ?thesis by auto
  qed
qed simp_all

lemma count_nl_append: "count_nl (xs @ ys) = count_nl xs + count_nl ys"
  by (simp add: count_nl_def)

lemma count_nl_split:
  assumes "s \<le> e"
  shows "count_nl (take s t) + count_nl (slice s e t) = count_nl (take e t)"
proof -
  have "take e t = take s t @ take (e - s) (drop s t)"
    using assms by (metis le_add_diff_inverse take_add)
  then show ?thesis
    by (simp add: slice_def count_nl_append)
qed

lemma count_nl_take_mono: "a \<le> b \<Longrightarrow> count_nl (take a t) \<le> count_nl (take b t)"
  using count_nl_split [of a b t] by simp

lemma lower_backtick: "lower_char CHR ''`'' = CHR ''`''"
  by (simp add: lower_char_def)

lemma python_tag_before_fence:
  assumes tag: "lower (slice fin se text) = ''python'' \<or> lower (slice fin se text) = ''python-exception''"
    and fence: "fin \<le> c" "c < length text" "text ! c = CHR ''`''"
  shows "fin + length (lower (slice fin se text)) \<le> c"
proof (rule ccontr)
  assume "\<not> fin + length (lower (slice fin se text)) \<le> c"
  then have k: "c - fin < length (slice fin se text)"
    using fence(1) by (simp add: lower_def)
  then have "slice fin se text ! (c - fin) = text ! c"
    using fence(1,2) by (simp add: slice_def)
  with k fence(3) have "lower (slice fin se text) ! (c - fin) = CHR ''`''"
    by (simp add: lower_def lower_backtick)
  moreover have "c - fin < length (lower (slice fin se text))"
    using k by (simp add: lower_def)
  ultimately have "CHR ''`'' \<in> set (lower (slice fin se text))"
    by (metis nth_mem)
  with tag show False by auto
qed


lemma count_nl_replicate: "count_nl (replicate n CHR ''\<newline>'') = n"
  by (simp add: count_nl_def)

lemma open_fence_aligned:
  assumes "0 < find_nl text (a + 3)"
    and "count_nl (pending_source st) \<le> count_nl (take (text_start st) text)"
    and "text_start st \<le> a"
  shows "aligned text (open_fence text a (a + 3) st)"
proof -
  let ?tag = "lower (slice (a + 3) (nat (find_nl text (a + 3))) text)"
  have "count_nl (take (text_start st) text) \<le> count_nl (take (a + 3 + length ?tag) text)"
    using assms(3) by (intro count_nl_take_mono) simp
  with assms(1,2) show ?thesis
    by (simp add: aligned_def open_fence_def yield_def slice_to_def Let_def)
qed

lemma python_append_bound:
  assumes al: "count_nl pending \<le> count_nl (take s text)" and le: "s \<le> c"
  shows "count_nl (pending @ replicate (nat (int (count_nl (take s text)) - int (count_nl pending)))
            CHR ''\<newline>'' @ slice s c text) \<le> count_nl (take (c + 3) text)"
proof -
  have "count_nl (pending @ replicate (nat (int (count_nl (take s text)) - int (count_nl pending)))
            CHR ''\<newline>'' @ slice s c text) = count_nl (take s text) + count_nl (slice s c text)"
    using al by (simp add: count_nl_append count_nl_replicate nat_diff_distrib')
  also have "\<dots> = count_nl (take c text)"
    by (rule count_nl_split [OF le])
  also have "\<dots> \<le> count_nl (take (c + 3) text)"
    by (rule count_nl_take_mono) simp
  finally show ?thesis .
qed

lemma close_fence_bound:
  assumes fresh: "0 < find_nl text (a + 3)"
    and bound: "count_nl (pending_source st) \<le> count_nl (take (text_start st) text)"
    and pos: "text_start st \<le> a" "a + 3 \<le> c" "c < length text" "text ! c = CHR ''`''"
    and step: "close_fence ev fs pth text c (c + 3) (open_fence text a (a + 3) st) = Inr st2"
  shows "count_nl (pending_source st2) \<le> count_nl (take (text_start st2) text)
      \<and> text_start st2 = c + 3"
proof -
  define se where "se = nat (find_nl text (a + 3))"
  define tag where "tag = lower (slice (a + 3) se text)"
  define st1 where "st1 = open_fence text a (a + 3) st"
  have st1: "block_suffix st1 = tag" "source_start st1 = Some (a + 3 + length tag)"
    "pending_source st1 = pending_source st" "text_start st1 = text_start st"
    using fresh by (simp_all add: st1_def tag_def se_def open_fence_def yield_def Let_def)
  have old: "count_nl (pending_source st) \<le> count_nl (take (c + 3) text)"
    using bound count_nl_take_mono [of "text_start st" "c + 3" "text"] pos(1,2) by simp
  have al: "count_nl (pending_source st) \<le> count_nl (take (a + 3 + length tag) text)"
    using bound count_nl_take_mono [of "text_start st" "a + 3 + length tag" "text"] pos(1) by simp
  consider (python) "tag = ''python''" | (exception) "tag = ''python-exception''"
    | (other) "tag \<noteq> ''python''" "tag \<noteq> ''python-exception''"
    by blast
  then show ?thesis
  proof cases
    case python
    then have "a + 3 + length tag \<le> c"
      using python_tag_before_fence [of "a + 3" se "text" c] pos by (simp add: tag_def)
    from python_append_bound [OF al this] step python show ?thesis
      by (auto simp: st1_def [symmetric] st1 close_fence_def python_block_def accumulate_def
          yield_def slice_to_def slice_from_def Let_def)
  next
    case exception
    with step show ?thesis
      by (auto simp: st1_def [symmetric] st1 close_fence_def python_block_def accumulate_def
          run_pending_def yield_def Let_def count_nl_def split: sum.splits prod.splits if_splits)
  next
    case other
    with step old show ?thesis
      by (auto simp: st1_def [symmetric] st1 close_fence_def python2_block_def
          syntax_error_block_def include_block_def output_block_def run_pending_def
          yield_def Let_def count_nl_def
          split: sum.splits prod.splits if_splits option.splits)
  qed
qed


lemma blocks_loop_aligned:
  assumes "sorted_wrt (\<lambda>a b. a + 3 \<le> b) ms"
    and "\<forall>s \<in> set ms. s < length text \<and> text ! s = CHR ''`'' \<and> text_start st \<le> s"
    and "blocks_seen mod 2 = 0"
    and "fresh_tags text blocks_seen ms"
    and "count_nl (pending_source st) \<le> count_nl (take (text_start st) text)"
    and "odd n" and "n \<le> length ms"
    and "blocks_loop ev fs pth text blocks_seen (take n ms) st = Inr st'"
  shows "aligned text st'"
  using assms
proof (induction ms arbitrary: blocks_seen st n rule: induct_list012)
  case 1
  then show ?case by simp
next
  case (2 a)
  then have "n = 1"
    by (cases n) auto
  with 2 show ?case
    by (auto intro: open_fence_aligned)
next
  case (3 a c rest)
  have first: "aligned text (open_fence text a (a + 3) st)"
    using 3 by (auto intro: open_fence_aligned)
  show ?case
  proof (cases "n = 1")
    case True
    with "3.prems" first show ?thesis by simp
  next
    case False
    with "3.prems"(6,7) obtain m where n: "n = Suc (Suc m)" and m: "odd m" "m \<le> length rest"
      by (cases n; cases "n - 1") auto
    have parity: "Suc blocks_seen mod 2 \<noteq> 0" "Suc (Suc blocks_seen) mod 2 = 0"
      using "3.prems"(3) by presburger+
    from "3.prems"(8) parity "3.prems"(3) obtain st2
      where step: "close_fence ev fs pth text c (c + 3) (open_fence text a (a + 3) st) = Inr st2"
        and rest: "blocks_loop ev fs pth text (Suc (Suc blocks_seen)) (take m rest) st2 = Inr st'"
      by (auto simp: n split: sum.splits)
    have bound: "count_nl (pending_source st2) \<le> count_nl (take (text_start st2) text)
        \<and> text_start st2 = c + 3"
      using "3.prems"(1,2,3,4,5) by (intro close_fence_bound [OF _ _ _ _ _ _ step]) auto
    show ?thesis
    proof (rule "3.IH"(1) [OF _ _ parity(2) _ _ m rest])
      show "sorted_wrt (\<lambda>a b. a + 3 \<le> b) rest"
        using "3.prems"(1) by simp
      show "\<forall>s \<in> set rest. s < length text \<and> text ! s = CHR ''`'' \<and> text_start st2 \<le> s"
        using "3.prems"(1,2) bound by auto
      show "fresh_tags text (Suc (Suc blocks_seen)) rest"
        using "3.prems"(4) by simp
      from bound show "count_nl (pending_source st2) \<le> count_nl (take (text_start st2) text)"
        by (rule conjunct1)
    qed
  qed
qed

lemma finditer_positions:
  "s \<in> set (finditer text) \<Longrightarrow> s < length text \<and> text ! s = CHR ''`''"
  using fence_starts_backtick [of s 0 "text"] by (simp add: finditer_def)

lemma padding_aligns_fresh_documents:
  assumes "fresh_tags text 0 (finditer text)"
    and "odd n" and "n \<le> length (finditer text)"
    and "blocks_loop ev fs pth text 0 (take n (finditer text)) (initial_state c) = Inr st"
  shows "\<exists>padding.
      pending_source (accumulate text source st) = pending_source st @ padding @ source
      \<and> count_nl (pending_source st @ padding) = count_nl (slice_to (source_start st) text)"
proof -
  have "aligned text st"
  proof (rule blocks_loop_aligned [OF _ _ _ assms(1) _ assms(2,3,4)])
    show "sorted_wrt (\<lambda>a b. a + 3 \<le> b) (finditer text)"
      by (simp add: finditer_def fence_starts_apart)
    show "\<forall>s \<in> set (finditer text).
        s < length text \<and> text ! s = CHR ''`'' \<and> text_start (initial_state c) \<le> s"
      by (simp add: finditer_positions initial_state_def)
    show "0 mod 2 = (0::nat)"
      by simp
    show "count_nl (pending_source (initial_state c))
        \<le> count_nl (take (text_start (initial_state c)) text)"
      by (simp add: initial_state_def count_nl_def)
  qed
  then show ?thesis
    using accumulate_aligned [of st "text" source] by (auto simp: aligned_def)
qed

text \<open>
  C2 at the document \<^term>\<open>stale_doc\<close>. At its second closing fence the start of the body
  is the stale offset 9: the document has no line break before it, the pending source has
  two, the difference is negative and nothing is inserted. The body, which starts on the
  first line of the document, starts on the third line of the pending source.
\<close>

theorem stale_body_start_breaks_alignment:
  "pending_source stale_open = ''\<newline>x = 2\<newline>''
   \<and> source_start stale_open = Some 9
   \<and> slice_from (source_start stale_open) 24 stale_doc = ''\<newline>x = 2\<newline>```a```b''
   \<and> count_nl (slice_to (source_start stale_open) stale_doc) = 0
   \<and> pending_source (accumulate stale_doc ''\<newline>x = 2\<newline>```a```b'' stale_open) =
       ''\<newline>x = 2\<newline>'' @ ''\<newline>x = 2\<newline>```a```b''
   \<and> (case close_fence toy_env Map.empty ''a.md'' stale_doc 24 27 stale_open of
         Inl failure \<Rightarrow> False
       | Inr st \<Rightarrow> pending_source st = ''\<newline>x = 2\<newline>\<newline>x = 2\<newline>```a```b'')"
  by code_simp

subsection \<open>Output blocks\<close>















end
